theory Spec2Isabelle
  imports Main "HOL-Library.AList"
begin

section \<open>Python strings and paths as the code uses them\<close>

text \<open>
  Strings are lists of 8-bit characters. The helpers below follow the Python built-ins
  the repository calls: \<^verbatim>\<open>str.startswith\<close>, \<^verbatim>\<open>str.endswith\<close>, the substring test
  \<^verbatim>\<open>p in s\<close>, \<^verbatim>\<open>str.lower\<close> (on ASCII letters; other characters are kept), and
  \<^verbatim>\<open>str.replace\<close>.
\<close>

definition startswith :: "string \<Rightarrow> string \<Rightarrow> bool" where
  "startswith s p = (take (length p) s = p)"

definition endswith :: "string \<Rightarrow> string \<Rightarrow> bool" where
  "endswith s p = (length p \<le> length s \<and> drop (length s - length p) s = p)"

fun py_in :: "string \<Rightarrow> string \<Rightarrow> bool" where
  "py_in p [] = (p = [])"
| "py_in p (c # cs) = (startswith (c # cs) p \<or> py_in p cs)"

definition lower_char :: "char \<Rightarrow> char" where
  "lower_char c =
     (let n = (of_char c :: nat) in if 65 \<le> n \<and> n \<le> 90 then char_of (n + 32) else c)"

definition lower :: "string \<Rightarrow> string" where
  "lower s = map lower_char s"

text \<open>
  \<^verbatim>\<open>s.replace(old, new)\<close> for a non-empty \<^verbatim>\<open>old\<close>: the occurrences are found from the
  left and do not overlap. The counter is the number of characters of a match still to
  be skipped. For an empty \<^verbatim>\<open>old\<close> Python puts \<^verbatim>\<open>new\<close> before every character and at
  the end.
\<close>

fun replace_from :: "string \<Rightarrow> string \<Rightarrow> nat \<Rightarrow> string \<Rightarrow> string" where
  "replace_from old new k [] = []"
| "replace_from old new (Suc k) (c # cs) = replace_from old new k cs"
| "replace_from old new 0 (c # cs) =
     (if startswith (c # cs) old then new @ replace_from old new (length old - 1) cs
      else c # replace_from old new 0 cs)"

definition replace :: "string \<Rightarrow> string \<Rightarrow> string \<Rightarrow> string" where
  "replace s old new =
     (if old = [] then concat (map (\<lambda>c. new @ [c]) s) @ new
      else replace_from old new 0 s)"

text \<open>
  \<^verbatim>\<open>os.path.basename\<close>, \<^verbatim>\<open>os.path.splitext\<close> and the two-argument
  \<^verbatim>\<open>os.path.join\<close> of \<^verbatim>\<open>posixpath\<close>. The file name is what follows the last slash; the
  extension starts at the last dot of the file name, unless only dots precede it.
\<close>

definition basename :: "string \<Rightarrow> string" where
  "basename p = rev (takeWhile (\<lambda>c. c \<noteq> CHR ''/'') (rev p))"

definition dirname_raw :: "string \<Rightarrow> string" where
  "dirname_raw p = rev (dropWhile (\<lambda>c. c \<noteq> CHR ''/'') (rev p))"

definition splitext_name :: "string \<Rightarrow> string \<times> string" where
  "splitext_name f =
     (let e = rev (takeWhile (\<lambda>c. c \<noteq> CHR ''.'') (rev f));
          r = rev (dropWhile (\<lambda>c. c \<noteq> CHR ''.'') (rev f))
      in if r = [] \<or> list_all (\<lambda>c. c = CHR ''.'') r then (f, [])
         else (butlast r, CHR ''.'' # e))"

definition splitext :: "string \<Rightarrow> string \<times> string" where
  "splitext p =
     (case splitext_name (basename p) of (b, e) \<Rightarrow> (dirname_raw p @ b, e))"

definition path_join :: "string \<Rightarrow> string \<Rightarrow> string" where
  "path_join a b =
     (if startswith b ''/'' then b
      else if a = [] \<or> endswith a ''/'' then a @ b
      else a @ ''/'' @ b)"

section \<open>JSON values and Python exceptions\<close>

text \<open>
  The value \<^verbatim>\<open>json.loads\<close> returns. Numbers are the integers; a floating-point number
  in a payload is outside this model. A JSON object is kept as an association list in
  insertion order, as a Python dict keeps its keys.
\<close>

datatype json =
    JNull
  | JBool bool
  | JNum int
  | JStr string
  | JArr "json list"
  | JObj "(string \<times> json) list"

type_synonym jdict = "(string \<times> json) list"

datatype exn = JSONDecodeError | AttributeError | KeyError | ValueError | TypeError

text \<open>A call either returns a value or raises the exception named.\<close>

datatype 'a result = Returns 'a | Raises string

text \<open>Python truth of a JSON value (\<^verbatim>\<open>not v\<close> is its negation).\<close>

fun truthy :: "json \<Rightarrow> bool" where
  "truthy JNull = False"
| "truthy (JBool b) = b"
| "truthy (JNum n) = (n \<noteq> 0)"
| "truthy (JStr s) = (s \<noteq> [])"
| "truthy (JArr xs) = (xs \<noteq> [])"
| "truthy (JObj kvs) = (kvs \<noteq> [])"

section \<open>The DLQ reprocessor: \<^verbatim>\<open>terraform/lambda_function.py\<close>\<close>

text \<open>
  One message as \<^verbatim>\<open>sqs_client.receive_message\<close> hands it over.
  \<^item> \<open>BodyJson\<close> is the result of \<^verbatim>\<open>json.loads(message['Body'])\<close>, \<open>None\<close> when it raises;
  \<^item> \<open>Attributes\<close> is \<^verbatim>\<open>message['Attributes']\<close>, \<open>None\<close> when the key is missing;
  \<^item> \<open>Repr\<close> is the text \<^verbatim>\<open>str(message)\<close> that the classification searches.
\<close>

record message =
  MessageId :: string
  ReceiptHandle :: string
  BodyJson :: "json option"
  Attributes :: "(string \<times> string) list option"
  Repr :: string

text \<open>
  The calls the handler makes to its collaborators, in the order it makes them. Each
  helper of the source wraps its call in \<^verbatim>\<open>try/except Exception\<close> and only logs a
  failure, so the handler's control flow never depends on the outcome of a call.
  \<^item> \<open>UpdateItem task_id error_type retry_count\<close>: \<^verbatim>\<open>table.update_item\<close> setting status
    \<^verbatim>\<open>FAILED\<close>;
  \<^item> \<open>SendMessage body\<close>: \<^verbatim>\<open>sqs_client.send_message\<close> to the main queue;
  \<^item> \<open>Publish task_id error_type task_details\<close>: \<^verbatim>\<open>sns_client.publish\<close>;
  \<^item> \<open>DeleteMessage receipt_handle\<close>: \<^verbatim>\<open>sqs_client.delete_message\<close> on the DLQ.
\<close>

datatype effect =
    UpdateItem json json int
  | SendMessage jdict
  | Publish json json jdict
  | DeleteMessage string

text \<open>
  \<^verbatim>\<open>int(s)\<close> on a string: surrounding white space is dropped, one sign is allowed, and
  the digits may be grouped by single underscores; anything else raises \<^verbatim>\<open>ValueError\<close>.
\<close>

definition is_space :: "char \<Rightarrow> bool" where
  "is_space c = (let n = (of_char c :: nat) in n = 32 \<or> (9 \<le> n \<and> n \<le> 13) \<or> (28 \<le> n \<and> n \<le> 31))"

definition is_digit :: "char \<Rightarrow> bool" where
  "is_digit c = (let n = (of_char c :: nat) in 48 \<le> n \<and> n \<le> 57)"

definition digit_val :: "char \<Rightarrow> int" where
  "digit_val c = int (of_char c) - 48"

fun parse_digits :: "bool \<Rightarrow> int \<Rightarrow> string \<Rightarrow> int option" where
  "parse_digits prev acc [] = (if prev then Some acc else None)"
| "parse_digits prev acc (c # cs) =
     (if is_digit c then parse_digits True (10 * acc + digit_val c) cs
      else if c = CHR ''_'' \<and> prev then parse_digits False acc cs
      else None)"

definition strip :: "string \<Rightarrow> string" where
  "strip s = rev (dropWhile is_space (rev (dropWhile is_space s)))"

definition py_int :: "string \<Rightarrow> int option" where
  "py_int s =
     (case strip s of
        [] \<Rightarrow> None
      | c # cs \<Rightarrow>
          if c = CHR ''+'' then parse_digits False 0 cs
          else if c = CHR ''-'' then map_option uminus (parse_digits False 0 cs)
          else parse_digits False 0 (c # cs))"

text \<open>
  \<^verbatim>\<open>int(message['Attributes'].get('ApproximateReceiveCount', 0))\<close>.
\<close>

definition receive_count :: "message \<Rightarrow> exn + int" where
  "receive_count m =
     (case Attributes m of
        None \<Rightarrow> Inl KeyError
      | Some attrs \<Rightarrow>
          (case map_of attrs ''ApproximateReceiveCount'' of
             None \<Rightarrow> Inr 0
           | Some s \<Rightarrow> (case py_int s of None \<Rightarrow> Inl ValueError | Some n \<Rightarrow> Inr n)))"

text \<open>
  \<^verbatim>\<open>get_error_type(body, message)\<close>. An \<^verbatim>\<open>error_type\<close> key of the body wins, whatever its
  value. Otherwise the rules are tried in the source's order; \<^verbatim>\<open>original_message\<close> must
  be a dict and, once the first two rules have failed, \<^verbatim>\<open>source_path\<close> must be a string,
  else the attribute access raises.
\<close>

definition get_error_type :: "jdict \<Rightarrow> message \<Rightarrow> exn + json" where
  "get_error_type body m =
     (case map_of body ''error_type'' of
        Some v \<Rightarrow> Inr v
      | None \<Rightarrow>
          (case (case map_of body ''original_message'' of
                   None \<Rightarrow> Inr []
                 | Some (JObj ob) \<Rightarrow> Inr ob
                 | Some _ \<Rightarrow> Inl AttributeError) of
             Inl e \<Rightarrow> Inl e
           | Inr original_body \<Rightarrow>
               (let source_path =
                      (case map_of original_body ''source_path'' of
                         None \<Rightarrow> JStr [] | Some v \<Rightarrow> v);
                    text = Repr m
                in if py_in ''access denied'' (lower text) then Inr (JStr ''PERMISSION_ERROR'')
                   else if py_in ''not found'' (lower text) then Inr (JStr ''NOT_FOUND_ERROR'')
                   else (case source_path of
                           JStr sp \<Rightarrow>
                             if startswith sp ''s3://'' \<and> py_in ''NoSuchKey'' text
                               then Inr (JStr ''S3_FILE_NOT_FOUND'')
                             else if startswith sp ''gs://'' \<and> py_in ''does not exist'' text
                               then Inr (JStr ''GCS_FILE_NOT_FOUND'')
                             else if py_in ''timeout'' (lower text)
                               then Inr (JStr ''TIMEOUT_ERROR'')
                             else Inr (JStr ''UNKNOWN_ERROR'')
                         | _ \<Rightarrow> Inl AttributeError))))"

definition retriable_errors :: "json list" where
  "retriable_errors =
     [JStr ''TIMEOUT_ERROR'', JStr ''TEMPORARY_FAILURE'',
      JStr ''CONNECTION_ERROR'', JStr ''RATE_LIMIT_ERROR'']"

definition is_retriable_error :: "json \<Rightarrow> bool" where
  "is_retriable_error error_type = List.member retriable_errors error_type"

definition update_task_status :: "json \<Rightarrow> json \<Rightarrow> int \<Rightarrow> effect list" where
  "update_task_status task_id error_type retry_count =
     [UpdateItem task_id error_type retry_count]"

text \<open>
  \<^verbatim>\<open>requeue_message\<close>: the counter is bumped in the dict, a new key going last.
  \<^verbatim>\<open>original_message['retries'] += 1\<close> raises \<^verbatim>\<open>TypeError\<close> unless the value is a number
  (a Python bool counts as one); the function's own \<^verbatim>\<open>except\<close> catches that and nothing
  is sent.
\<close>

definition bump_retries :: "jdict \<Rightarrow> exn + jdict" where
  "bump_retries original_message =
     (case map_of original_message ''retries'' of
        None \<Rightarrow> Inr (AList.update ''retries'' (JNum 1) original_message)
      | Some (JNum n) \<Rightarrow> Inr (AList.update ''retries'' (JNum (n + 1)) original_message)
      | Some (JBool b) \<Rightarrow>
          Inr (AList.update ''retries'' (JNum ((if b then 1 else 0) + 1)) original_message)
      | Some _ \<Rightarrow> Inl TypeError)"

definition requeue_message :: "jdict \<Rightarrow> effect list" where
  "requeue_message original_message =
     (case bump_retries original_message of
        Inl e \<Rightarrow> []
      | Inr body \<Rightarrow> [SendMessage body])"

definition delete_message :: "string \<Rightarrow> effect list" where
  "delete_message receipt_handle = [DeleteMessage receipt_handle]"

definition send_failure_notification :: "json \<Rightarrow> json \<Rightarrow> jdict \<Rightarrow> effect list" where
  "send_failure_notification task_id error_type task_details =
     [Publish task_id error_type task_details]"

text \<open>\<^verbatim>\<open>task_id = body.get('task_id')\<close> passes the test \<^verbatim>\<open>if not task_id\<close> or not.\<close>

definition has_task_id :: "jdict \<Rightarrow> bool" where
  "has_task_id body = (case map_of body ''task_id'' of None \<Rightarrow> False | Some v \<Rightarrow> truthy v)"

definition task_id_of :: "jdict \<Rightarrow> json" where
  "task_id_of body = (case map_of body ''task_id'' of None \<Rightarrow> JNull | Some v \<Rightarrow> v)"

text \<open>
  The body of the \<^verbatim>\<open>for\<close> loop of \<^verbatim>\<open>lambda_handler\<close> for one message: the calls made,
  and the exception that reached the loop's \<^verbatim>\<open>except\<close> clause, if one did.
\<close>

definition process_message :: "message \<Rightarrow> effect list \<times> exn option" where
  "process_message m =
     (case BodyJson m of
        None \<Rightarrow> ([], Some JSONDecodeError)
      | Some (JObj body) \<Rightarrow>
          if \<not> has_task_id body then (delete_message (ReceiptHandle m), None)
          else
            (case receive_count m of
               Inl e \<Rightarrow> ([], Some e)
             | Inr approximate_receive_count \<Rightarrow>
                 (case get_error_type body m of
                    Inl e \<Rightarrow> ([], Some e)
                  | Inr error_type \<Rightarrow>
                      (update_task_status (task_id_of body) error_type approximate_receive_count
                       @ (if is_retriable_error error_type \<and> approximate_receive_count \<le> 3
                          then requeue_message body
                          else send_failure_notification (task_id_of body) error_type body)
                       @ delete_message (ReceiptHandle m), None)))
      | Some _ \<Rightarrow> ([], Some AttributeError))"

text \<open>
  The loop over the batch: the \<^verbatim>\<open>except\<close> clause logs and goes on to the next message.
\<close>

fun process_batch :: "message list \<Rightarrow> effect list" where
  "process_batch [] = []"
| "process_batch (m # ms) = fst (process_message m) @ process_batch ms"

datatype response = NoMessages | Processed nat

definition lambda_handler :: "message list \<Rightarrow> effect list \<times> response" where
  "lambda_handler messages =
     (if messages = [] then ([], NoMessages)
      else (process_batch messages, Processed (length messages)))"

text \<open>What one message's processing did, read off its calls.\<close>

fun is_update :: "effect \<Rightarrow> bool" where
  "is_update (UpdateItem t e n) = True"
| "is_update _ = False"

fun is_send :: "effect \<Rightarrow> bool" where
  "is_send (SendMessage b) = True"
| "is_send _ = False"

fun is_publish :: "effect \<Rightarrow> bool" where
  "is_publish (Publish t e b) = True"
| "is_publish _ = False"

fun is_delete :: "effect \<Rightarrow> bool" where
  "is_delete (DeleteMessage r) = True"
| "is_delete _ = False"

definition status_written :: "message \<Rightarrow> bool" where
  "status_written m = list_ex is_update (fst (process_message m))"

definition requeued :: "message \<Rightarrow> bool" where
  "requeued m = list_ex is_send (fst (process_message m))"

definition notified :: "message \<Rightarrow> bool" where
  "notified m = list_ex is_publish (fst (process_message m))"

definition deleted :: "message \<Rightarrow> bool" where
  "deleted m = list_ex is_delete (fst (process_message m))"

text \<open>
  The decision of the source, \<^verbatim>\<open>is_retriable_error(error_type) and
  approximate_receive_count <= 3\<close>, as a predicate of the message alone: its classified
  error type is one of the four retriable ones and its receive count is at most 3.
\<close>

definition retry_eligible :: "message \<Rightarrow> bool" where
  "retry_eligible m =
     (case BodyJson m of
        Some (JObj body) \<Rightarrow>
          (case get_error_type body m of
             Inr error_type \<Rightarrow>
               (case receive_count m of
                  Inr n \<Rightarrow> is_retriable_error error_type \<and> n \<le> 3
                | Inl e \<Rightarrow> False)
           | Inl e \<Rightarrow> False)
      | _ \<Rightarrow> False)"

text \<open>The payload's \<^verbatim>\<open>retries\<close> field is absent or an integer.\<close>

definition retries_absent_or_number :: "jdict \<Rightarrow> bool" where
  "retries_absent_or_number body =
     (case map_of body ''retries'' of None \<Rightarrow> True | Some (JNum k) \<Rightarrow> True | Some _ \<Rightarrow> False)"

text \<open>
  Two orderings of a message's calls. \<open>delete_preceded False es\<close>: every \<open>DeleteMessage\<close>
  of \<open>es\<close> comes after a status write, a requeue or a notification. \<open>delete_is_last es\<close>:
  nothing is called after a \<open>DeleteMessage\<close>.
\<close>

fun delete_preceded :: "bool \<Rightarrow> effect list \<Rightarrow> bool" where
  "delete_preceded seen [] = True"
| "delete_preceded seen (DeleteMessage r # es) = (seen \<and> delete_preceded seen es)"
| "delete_preceded seen (e # es) = delete_preceded True es"

fun delete_is_last :: "effect list \<Rightarrow> bool" where
  "delete_is_last [] = True"
| "delete_is_last (DeleteMessage r # es) = (es = [])"
| "delete_is_last (e # es) = delete_is_last es"

section \<open>The format detector: \<^verbatim>\<open>docker/processor/format_detect.py\<close>\<close>

text \<open>
  What the detector reads from the machine it runs on: the local file system, which
  optional reader packages import, and what the external tools answer.
  \<^item> \<open>path_exists\<close>: \<^verbatim>\<open>os.path.exists\<close>;
  \<^item> \<open>rosbags_installed\<close>, \<open>mcap_installed\<close>, \<open>h5py_installed\<close>: the import succeeds;
  \<^item> \<open>rosbag_read\<close>, \<open>mcap_read\<close>, \<open>hdf5_read\<close>: the details the reader yields for a file it
    can open, \<open>None\<close> when opening or reading raises (the file is not a valid container,
    or the package is missing);
  \<^item> \<open>hdf5_opens\<close>: \<^verbatim>\<open>h5py.File(path, 'r')\<close> opens the file;
  \<^item> \<open>ffprobe_video\<close>: the probe ran and its output names a video stream;
  \<^item> \<open>ffprobe_details\<close>: the details \<^verbatim>\<open>detect_video_details\<close> collects, empty on any failure;
  \<^item> \<open>guess_type\<close>: \<^verbatim>\<open>mimetypes.guess_type\<close>;
  \<^item> \<open>gzip_copy\<close>: copying a file into a gzip stream at the output path completes;
  \<^item> \<open>zip_build\<close>: building the zip archive completes and leaves a non-empty file.
\<close>

record machine =
  path_exists :: "string \<Rightarrow> bool"
  rosbags_installed :: bool
  mcap_installed :: bool
  h5py_installed :: bool
  rosbag_read :: "string \<Rightarrow> jdict option"
  mcap_read :: "string \<Rightarrow> jdict option"
  hdf5_read :: "string \<Rightarrow> jdict option"
  hdf5_opens :: "string \<Rightarrow> bool"
  ffprobe_video :: "string \<Rightarrow> bool"
  ffprobe_details :: "string \<Rightarrow> jdict"
  guess_type :: "string \<Rightarrow> string option"
  gzip_copy :: "string \<Rightarrow> string \<Rightarrow> bool"
  zip_build :: "string \<Rightarrow> string \<Rightarrow> json \<Rightarrow> bool"

datatype format_type = Video | Image | Rosbag | Mcap | Hdf5 | Archive | Unknown

record format_info =
  ftype :: format_type
  extension :: string
  mime_type :: string
  details :: jdict

definition is_rosbag :: "machine \<Rightarrow> string \<Rightarrow> bool" where
  "is_rosbag mc file_path = (endswith file_path ''.bag'' \<and> rosbags_installed mc)"

definition is_mcap :: "machine \<Rightarrow> string \<Rightarrow> bool" where
  "is_mcap mc file_path = (endswith file_path ''.mcap'' \<and> mcap_installed mc)"

definition is_hdf5 :: "machine \<Rightarrow> string \<Rightarrow> bool" where
  "is_hdf5 mc file_path =
     (if endswith file_path ''.h5'' \<or> endswith file_path ''.hdf5''
      then (if h5py_installed mc then hdf5_opens mc file_path else True)
      else False)"

definition video_extensions :: "string list" where
  "video_extensions = [''.mp4'', ''.avi'', ''.mov'', ''.mkv'', ''.wmv'', ''.flv'', ''.webm'']"

definition image_extensions :: "string list" where
  "image_extensions = [''.jpg'', ''.jpeg'', ''.png'', ''.gif'', ''.bmp'', ''.tiff'', ''.webp'']"

definition archive_extensions :: "string list" where
  "archive_extensions = [''.zip'', ''.tar'', ''.gz'', ''.bz2'', ''.7z'', ''.rar'']"

definition is_video :: "machine \<Rightarrow> string \<Rightarrow> bool" where
  "is_video mc file_path =
     (if List.member video_extensions (lower (snd (splitext file_path))) then True
      else ffprobe_video mc file_path)"

definition is_image :: "string \<Rightarrow> bool" where
  "is_image file_path = List.member image_extensions (lower (snd (splitext file_path)))"

definition is_archive :: "string \<Rightarrow> bool" where
  "is_archive file_path = List.member archive_extensions (lower (snd (splitext file_path)))"

definition detect_rosbag_details :: "machine \<Rightarrow> string \<Rightarrow> jdict" where
  "detect_rosbag_details mc file_path =
     (case rosbag_read mc file_path of None \<Rightarrow> [] | Some d \<Rightarrow> d)"

definition detect_mcap_details :: "machine \<Rightarrow> string \<Rightarrow> jdict" where
  "detect_mcap_details mc file_path =
     (case mcap_read mc file_path of None \<Rightarrow> [] | Some d \<Rightarrow> d)"

definition detect_hdf5_details :: "machine \<Rightarrow> string \<Rightarrow> jdict" where
  "detect_hdf5_details mc file_path =
     (case hdf5_read mc file_path of None \<Rightarrow> [] | Some d \<Rightarrow> d)"

definition or_default :: "string option \<Rightarrow> string \<Rightarrow> string" where
  "or_default v d = (case v of None \<Rightarrow> d | Some s \<Rightarrow> if s = [] then d else s)"

definition detect_format :: "machine \<Rightarrow> string \<Rightarrow> format_info" where
  "detect_format mc file_path =
     (if \<not> path_exists mc file_path
      then \<lparr>ftype = Unknown, extension = [], mime_type = [],
            details = [(''error'', JStr ''File not found'')]\<rparr>
      else
        (let extension = lower (snd (splitext file_path));
             mime_type = guess_type mc file_path
         in if is_rosbag mc file_path
            then \<lparr>ftype = Rosbag, extension = extension,
                  mime_type = ''application/octet-stream'',
                  details = detect_rosbag_details mc file_path\<rparr>
            else if is_mcap mc file_path
            then \<lparr>ftype = Mcap, extension = extension,
                  mime_type = ''application/octet-stream'',
                  details = detect_mcap_details mc file_path\<rparr>
            else if is_hdf5 mc file_path
            then \<lparr>ftype = Hdf5, extension = extension,
                  mime_type = ''application/x-hdf5'',
                  details = detect_hdf5_details mc file_path\<rparr>
            else if is_video mc file_path
            then \<lparr>ftype = Video, extension = extension,
                  mime_type = or_default mime_type ''video/unknown'',
                  details = ffprobe_details mc file_path\<rparr>
            else if is_image file_path
            then \<lparr>ftype = Image, extension = extension,
                  mime_type = or_default mime_type ''image/unknown'', details = []\<rparr>
            else if is_archive file_path
            then \<lparr>ftype = Archive, extension = extension,
                  mime_type = or_default mime_type ''application/zip'', details = []\<rparr>
            else \<lparr>ftype = Unknown, extension = extension,
                  mime_type = or_default mime_type ''application/octet-stream'',
                  details = []\<rparr>))"

section \<open>Compression: \<^verbatim>\<open>docker/processor/compress_zip.py\<close>\<close>

text \<open>
  \<^verbatim>\<open>compress_file\<close> returns its boolean and leaves an artifact at the output path. The
  branch is chosen by the extension the detector reports for the input: \<^verbatim>\<open>.bag\<close> is
  copied into one gzip stream, everything else goes into a zip archive whose building
  (entries, patterns, password) is left to \<open>zip_build\<close>. Any exception inside the
  \<^verbatim>\<open>try\<close> block ends in \<^verbatim>\<open>return False\<close>. The options are read by \<^verbatim>\<open>params.get\<close> before
  the \<^verbatim>\<open>try\<close>, after \<^verbatim>\<open>None\<close> has been replaced by the empty dict: a \<^verbatim>\<open>params\<close> that is
  neither raises \<^verbatim>\<open>AttributeError\<close>.
\<close>

datatype artifact = GzipStream string string | ZipArchive string string

definition dict_or_none :: "json \<Rightarrow> bool" where
  "dict_or_none ps = (case ps of JNull \<Rightarrow> True | JObj kvs \<Rightarrow> True | _ \<Rightarrow> False)"

definition compress_file ::
  "machine \<Rightarrow> string \<Rightarrow> string \<Rightarrow> json \<Rightarrow> (bool \<times> artifact option) result" where
  "compress_file mc input_path output_path params =
     (if \<not> path_exists mc input_path then Returns (False, None)
      else if \<not> dict_or_none params then Raises ''AttributeError''
      else
        (let file_format = detect_format mc input_path;
             ext = lower (extension file_format)
         in if ext = ''.bag''
            then (if gzip_copy mc input_path output_path
                  then Returns (True, Some (GzipStream input_path output_path))
                  else Returns (False, None))
            else (if zip_build mc input_path output_path params
                  then Returns (True, Some (ZipArchive input_path output_path))
                  else Returns (False, None))))"

section \<open>Renaming: \<^verbatim>\<open>docker/processor/rename_file.py\<close>\<close>

text \<open>
  \<^verbatim>\<open>process_pattern\<close> reads the clock and draws a UUID: \<open>strftime fmt\<close> is
  \<^verbatim>\<open>now.strftime(fmt)\<close> for the one \<^verbatim>\<open>now\<close> of the call, \<open>uuid4\<close> is \<^verbatim>\<open>str(uuid.uuid4())\<close>.
  The metadata dict is a list of its keys with the values already rendered by \<^verbatim>\<open>str\<close>.
  Every metadata placeholder starts with \<^verbatim>\<open>{meta.\<close>, so none replaces one of the eight
  built-in entries and the dict of replacements is the built-in entries followed by the
  metadata ones, in that order.
\<close>

record clock =
  strftime :: "string \<Rightarrow> string"
  uuid4 :: string

definition replace_all :: "(string \<times> string) list \<Rightarrow> string \<Rightarrow> string" where
  "replace_all replacements pattern =
     fold (\<lambda>(placeholder, replacement) result. replace result placeholder replacement)
       replacements pattern"

definition process_pattern ::
  "clock \<Rightarrow> string \<Rightarrow> string \<Rightarrow> (string \<times> string) list \<Rightarrow> string \<Rightarrow> string" where
  "process_pattern ck pattern input_path metadata timestamp_format =
     (let input_filename = basename input_path;
          input_basename = fst (splitext input_filename);
          input_extension = snd (splitext input_filename);
          timestamp = strftime ck timestamp_format;
          unique_id = uuid4 ck;
          short_id = takeWhile (\<lambda>c. c \<noteq> CHR ''-'') unique_id;
          replacements =
            [(''{filename}'', input_filename),
             (''{basename}'', input_basename),
             (''{ext}'', input_extension),
             (''{timestamp}'', timestamp),
             (''{date}'', strftime ck ''%Y%m%d''),
             (''{time}'', strftime ck ''%H%M%S''),
             (''{uuid}'', unique_id),
             (''{uuid_short}'', short_id)]
            @ map (\<lambda>(key, v). (''{meta.'' @ key @ ''}'', v)) metadata;
          result = replace_all replacements pattern
      in if \<not> endswith result input_extension
            \<and> CHR ''.'' \<notin> set (basename result) \<and> input_extension \<noteq> []
         then result @ input_extension else result)"

section \<open>The task executor: \<^verbatim>\<open>docker/app.py\<close>\<close>

text \<open>
  The task as read from the queue payload: each field is a string or absent, \<open>params\<close>
  any JSON value or absent.
\<close>

record task =
  task_id :: "string option"
  action :: "string option"
  source_path :: "string option"
  output_path :: "string option"
  params :: "json option"

text \<open>
  \<open>environ\<close> is \<^verbatim>\<open>os.environ.get\<close>; \<open>urlparse_path\<close> is \<^verbatim>\<open>urlparse(u).path\<close> of the standard
  library, \<open>None\<close> when \<^verbatim>\<open>urlparse\<close> raises.
\<close>

record host =
  environ :: "string \<Rightarrow> string option"
  urlparse_path :: "string \<Rightarrow> string option"

text \<open>
  \<^verbatim>\<open>upload_file\<close> of \<^verbatim>\<open>storage_io.py\<close>. \<open>s3_upload\<close> and \<open>gcs_upload\<close> are the answers of
  \<^verbatim>\<open>upload_to_s3\<close> and \<^verbatim>\<open>upload_to_gcs\<close>, which catch their own exceptions. The test
  \<^verbatim>\<open>destination_uri.startswith\<close> is outside any \<^verbatim>\<open>try\<close>: on a destination that is \<^verbatim>\<open>None\<close> it
  raises \<^verbatim>\<open>AttributeError\<close>.
\<close>

record storage =
  s3_upload :: "string \<Rightarrow> string \<Rightarrow> bool"
  gcs_upload :: "string \<Rightarrow> string \<Rightarrow> bool"

definition upload_file :: "machine \<Rightarrow> storage \<Rightarrow> string \<Rightarrow> string option \<Rightarrow> bool result" where
  "upload_file mc st local_path destination_uri =
     (if \<not> path_exists mc local_path then Returns False
      else
        (case destination_uri of
           None \<Rightarrow> Raises ''AttributeError''
         | Some uri \<Rightarrow>
             if startswith uri ''s3://'' then Returns (s3_upload st local_path uri)
             else if startswith uri ''gs://'' then Returns (gcs_upload st local_path uri)
             else Returns False))"

text \<open>
  \<^verbatim>\<open>process_task\<close> has no \<^verbatim>\<open>try\<close> of its own, so whatever a collaborator raises leaves it.
\<close>

record ops =
  op_download :: "string option \<Rightarrow> string \<Rightarrow> bool result"
  op_detect :: "string \<Rightarrow> format_info result"
  op_convert :: "string \<Rightarrow> string \<Rightarrow> format_info \<Rightarrow> json \<Rightarrow> bool result"
  op_compress :: "string \<Rightarrow> string \<Rightarrow> json \<Rightarrow> bool result"
  op_rename :: "string \<Rightarrow> string \<Rightarrow> json \<Rightarrow> bool result"
  op_upload :: "string \<Rightarrow> string option \<Rightarrow> bool result"

text \<open>
  The calls \<^verbatim>\<open>process_task\<close> makes, in order. \<open>StatusWrite task_id status error_type\<close> is
  the record \<^verbatim>\<open>update_status\<close> sends to the status store.
\<close>

datatype call =
    Download "string option" string
  | Detect string
  | Convert string string
  | Compress string string
  | Rename string string
  | Upload string "string option"
  | StatusWrite string string "string option"

type_synonym 'a run = "call list \<times> 'a result"

definition bind :: "'a run \<Rightarrow> ('a \<Rightarrow> 'b run) \<Rightarrow> 'b run" where
  "bind r f =
     (case r of
        (tr, Raises e) \<Rightarrow> (tr, Raises e)
      | (tr, Returns x) \<Rightarrow> (case f x of (tr', y) \<Rightarrow> (tr @ tr', y)))"

definition falsy :: "string option \<Rightarrow> bool" where
  "falsy v = (case v of None \<Rightarrow> True | Some s \<Rightarrow> s = [])"

definition str_of :: "string option \<Rightarrow> string" where
  "str_of v = (case v of None \<Rightarrow> [] | Some s \<Rightarrow> s)"

text \<open>
  \<^verbatim>\<open>update_status\<close> of \<^verbatim>\<open>status_writer.py\<close>: nothing is written for an empty task id, and
  an empty error type is left out of the record. The database helpers catch their own
  exceptions.
\<close>

definition update_status :: "string \<Rightarrow> string \<Rightarrow> string option \<Rightarrow> unit run" where
  "update_status tid status error_type =
     (if tid = [] then ([], Returns ())
      else ([StatusWrite tid status (if falsy error_type then None else error_type)],
            Returns ()))"

definition task_id_str :: "task \<Rightarrow> string" where
  "task_id_str t = (case task_id t of None \<Rightarrow> ''unknown'' | Some s \<Rightarrow> s)"

definition bucket_of :: "host \<Rightarrow> string \<Rightarrow> string option" where
  "bucket_of h var = (case environ h var of None \<Rightarrow> None | Some b \<Rightarrow> if b = [] then None else Some b)"

definition resolve_source :: "host \<Rightarrow> string \<Rightarrow> task \<Rightarrow> string option" where
  "resolve_source h provider t =
     (if falsy (source_path t) then
        (if provider = ''aws'' then
           (case bucket_of h ''AWS_TEMP_BUCKET'' of
              Some bucket \<Rightarrow> Some (''s3://'' @ bucket @ ''/input_'' @ task_id_str t)
            | None \<Rightarrow> source_path t)
         else if provider = ''gcp'' then
           (case bucket_of h ''GCP_TEMP_BUCKET'' of
              Some bucket \<Rightarrow> Some (''gs://'' @ bucket @ ''/input_'' @ task_id_str t)
            | None \<Rightarrow> source_path t)
         else source_path t)
      else source_path t)"

definition resolve_output :: "host \<Rightarrow> string \<Rightarrow> task \<Rightarrow> string option result" where
  "resolve_output h provider t =
     (let src = resolve_source h provider t in
      if falsy (output_path t) then
        (if action t = Some ''convert_h265'' \<and> \<not> falsy src then
           (case urlparse_path h (str_of src) of
              None \<Rightarrow> Raises ''ValueError''
            | Some path \<Rightarrow>
                (let base = fst (splitext (basename path));
                     ext = snd (splitext (basename path));
                     output_filename = base @ ''_h265.mp4''
                 in if provider = ''aws'' then
                      (case bucket_of h ''AWS_DESTINATION_BUCKET'' of
                         Some bucket \<Rightarrow> Returns (Some (''s3://'' @ bucket @ ''/'' @ output_filename))
                       | None \<Rightarrow> Returns (output_path t))
                    else if provider = ''gcp'' then
                      (case bucket_of h ''GCP_DESTINATION_BUCKET'' of
                         Some bucket \<Rightarrow> Returns (Some (''gs://'' @ bucket @ ''/'' @ output_filename))
                       | None \<Rightarrow> Returns (output_path t))
                    else Returns (Some (replace (str_of src) (base @ ext) output_filename))))
         else
           (if provider = ''aws'' then
              (case bucket_of h ''AWS_DESTINATION_BUCKET'' of
                 Some bucket \<Rightarrow> Returns (Some (''s3://'' @ bucket @ ''/output_'' @ task_id_str t))
               | None \<Rightarrow> Returns (output_path t))
            else if provider = ''gcp'' then
              (case bucket_of h ''GCP_DESTINATION_BUCKET'' of
                 Some bucket \<Rightarrow> Returns (Some (''gs://'' @ bucket @ ''/output_'' @ task_id_str t))
               | None \<Rightarrow> Returns (output_path t))
            else Returns (output_path t)))
      else Returns (output_path t))"

definition work_dir :: string where
  "work_dir = ''/tmp/processing''"

definition local_input :: "host \<Rightarrow> string \<Rightarrow> task \<Rightarrow> string" where
  "local_input h provider t =
     (let src = resolve_source h provider t;
          source_ext = (if falsy src then [] else snd (splitext (str_of src)))
      in path_join work_dir (''input_'' @ task_id_str t @ source_ext))"

definition local_output :: "task \<Rightarrow> string" where
  "local_output t = path_join work_dir (''output_'' @ task_id_str t)"

definition task_params :: "task \<Rightarrow> json" where
  "task_params t = (case params t of None \<Rightarrow> JObj [] | Some p \<Rightarrow> p)"

text \<open>The \<^verbatim>\<open>if/elif/else\<close> on the action, up to the value of \<^verbatim>\<open>ok\<close>.\<close>

definition dispatch :: "ops \<Rightarrow> task \<Rightarrow> string \<Rightarrow> string \<Rightarrow> bool run" where
  "dispatch w t li lo =
     (if action t = Some ''convert_h265'' then
        bind ([Detect li], op_detect w li) (\<lambda>file_format.
          ([Convert li lo], op_convert w li lo file_format (task_params t)))
      else if action t = Some ''compress'' then
        bind ([Detect li], op_detect w li) (\<lambda>file_format.
        bind ([Compress li lo], op_compress w li lo (task_params t)) (\<lambda>compress_success.
          if \<not> compress_success then ([], Raises ''Compression failed'')
          else ([], Returns True)))
      else if action t = Some ''rename'' then
        ([Rename li lo], op_rename w li lo (task_params t))
      else
        bind (update_status (task_id_str t) ''FAILED'' (Some ''unknown_action'')) (\<lambda>u.
          ([], Returns False)))"

definition process_task :: "host \<Rightarrow> ops \<Rightarrow> task \<Rightarrow> string \<Rightarrow> bool run" where
  "process_task h w t provider =
     (let tid = task_id_str t;
          src = resolve_source h provider t;
          li = local_input h provider t;
          lo = local_output t
      in bind ([], resolve_output h provider t) (\<lambda>out.
         bind ([Download src li], op_download w src li) (\<lambda>downloaded.
           if \<not> downloaded then
             bind (update_status tid ''FAILED'' (Some ''download_failed'')) (\<lambda>u.
               ([], Returns False))
           else
             bind (dispatch w t li lo) (\<lambda>ok.
               if \<not> ok then
                 bind (update_status tid ''FAILED'' (Some ''processing_failed'')) (\<lambda>u.
                   ([], Returns False))
               else
                 bind ([Upload lo out], op_upload w lo out) (\<lambda>upload_result.
                   if \<not> upload_result then
                     bind (update_status tid ''FAILED'' (Some ''upload_failed'')) (\<lambda>u.
                       ([], Returns False))
                   else
                     bind (update_status tid ''SUCCESS'' None) (\<lambda>u.
                       ([], Returns True)))))))"

section \<open>Sample inputs\<close>

text \<open>
  A DLQ message with the given body and receive count. The two sample bodies name their
  error type, so their classification never reads \<open>Repr\<close>.
\<close>

definition dlq_message :: "jdict \<Rightarrow> string \<Rightarrow> message" where
  "dlq_message body count =
     \<lparr>MessageId = ''m1'', ReceiptHandle = ''rh1'', BodyJson = Some (JObj body),
      Attributes = Some [(''ApproximateReceiveCount'', count)],
      Repr = ''m1 rh1''\<rparr>"

definition timeout_body :: jdict where
  "timeout_body =
     [(''task_id'', JStr ''t1''), (''action'', JStr ''compress''),
      (''error_type'', JStr ''TIMEOUT_ERROR'')]"

definition anonymous_body :: jdict where
  "anonymous_body = [(''action'', JStr ''compress''), (''error_type'', JStr ''TIMEOUT_ERROR'')]"

text \<open>
  \<open>bucket_url_path\<close> is \<^verbatim>\<open>urlparse(u).path\<close> for a plain \<^verbatim>\<open>s3://bucket/key\<close> or
  \<^verbatim>\<open>gs://bucket/key\<close> URI (no query, fragment or parameters): the key with its slash.
\<close>

definition bucket_url_path :: "string \<Rightarrow> string option" where
  "bucket_url_path u = Some (dropWhile (\<lambda>c. c \<noteq> CHR ''/'') (drop 5 u))"

definition host_with :: "(string \<times> string) list \<Rightarrow> host" where
  "host_with vars = \<lparr>environ = map_of vars, urlparse_path = bucket_url_path\<rparr>"

definition plain_format :: format_info where
  "plain_format =
     \<lparr>ftype = Unknown, extension = ''.txt'', mime_type = ''text/plain'', details = []\<rparr>"

text \<open>Collaborators that all succeed, but for the compression, whose answer is given.\<close>

definition ops_with_compress :: "bool \<Rightarrow> ops" where
  "ops_with_compress compressed =
     \<lparr>op_download = (\<lambda>uri p. Returns True),
      op_detect = (\<lambda>p. Returns plain_format),
      op_convert = (\<lambda>i out f ps. Returns True),
      op_compress = (\<lambda>i out ps. Returns compressed),
      op_rename = (\<lambda>i out ps. Returns True),
      op_upload = (\<lambda>p uri. Returns True)\<rparr>"

definition task_with :: "string \<Rightarrow> string \<Rightarrow> task" where
  "task_with act src =
     \<lparr>task_id = Some ''t1'', action = Some act, source_path = Some src,
      output_path = None, params = None\<rparr>"


text \<open>
  A machine on which every path exists and every reader package is installed, but no
  file opens as a valid container.
\<close>

definition strict_machine :: machine where
  "strict_machine =
     \<lparr>path_exists = (\<lambda>p. True),
      rosbags_installed = True, mcap_installed = True, h5py_installed = True,
      rosbag_read = (\<lambda>p. None), mcap_read = (\<lambda>p. None), hdf5_read = (\<lambda>p. None),
      hdf5_opens = (\<lambda>p. False),
      ffprobe_video = (\<lambda>p. False), ffprobe_details = (\<lambda>p. []),
      guess_type = (\<lambda>p. None), gzip_copy = (\<lambda>i out. True),
      zip_build = (\<lambda>i out ps. True)\<rparr>"

text \<open>
  Collaborators on a machine: downloads and the transfers to S3 and GCS succeed;
  detection, compression and \<^verbatim>\<open>upload_file\<close> are the repository's own functions.
\<close>

definition ops_on :: "machine \<Rightarrow> ops" where
  "ops_on mc =
     \<lparr>op_download = (\<lambda>uri p. Returns True),
      op_detect = (\<lambda>p. Returns (detect_format mc p)),
      op_convert = (\<lambda>i out f ps. Returns True),
      op_compress = (\<lambda>i out ps. case compress_file mc i out ps of
                                    Returns r \<Rightarrow> Returns (fst r) | Raises e \<Rightarrow> Raises e),
      op_rename = (\<lambda>i out ps. Returns True),
      op_upload = upload_file mc \<lparr>s3_upload = (\<lambda>p uri. True), gcs_upload = (\<lambda>p uri. True)\<rparr>\<rparr>"

definition fixed_clock :: clock where
  "fixed_clock =
     \<lparr>strftime = (\<lambda>fmt. if fmt = ''%Y%m%d'' then ''20240131''
                        else if fmt = ''%H%M%S'' then ''093000'' else ''20240131_093000''),
      uuid4 = ''123e4567-e89b-42d3-a456-426614174000''\<rparr>"

section \<open>Helper lemmas\<close>

lemma replace_from_no_first:
  "c \<notin> set s \<Longrightarrow> replace_from (c # r) new 0 s = s"
  by (induction s) (auto simp: startswith_def)

lemma replace_no_first: "c \<notin> set s \<Longrightarrow> replace s (c # r) new = s"
  by (simp add: replace_def replace_from_no_first)

lemma replace_from_absent:
  "\<not> py_in old s \<Longrightarrow> replace_from old new 0 s = s"
  by (induction s) auto

lemma replace_absent: "old \<noteq> [] \<Longrightarrow> \<not> py_in old s \<Longrightarrow> replace s old new = s"
  by (simp add: replace_def replace_from_absent)

lemma replace_all_meta:
  "CHR ''{'' \<notin> set s \<Longrightarrow>
   replace_all (map (\<lambda>(key, v). (''{meta.'' @ key @ ''}'', v)) metadata) s = s"
  by (induction metadata) (auto simp: replace_all_def replace_no_first)

lemma replace_all_append:
  "replace_all (xs @ ys) s = replace_all ys (replace_all xs s)"
  by (simp add: replace_all_def)

lemma replace_all_Cons:
  "replace_all ((ph, r) # xs) s = replace_all xs (replace s ph r)"
  by (simp add: replace_all_def)

lemma replace_all_Nil: "replace_all [] s = s"
  by (simp add: replace_all_def)

lemma endswith_set: "endswith s p \<Longrightarrow> set p \<subseteq> set s"
  unfolding endswith_def by (metis set_drop_subset)

lemma basename_set: "set (basename s) \<subseteq> set s"
  unfolding basename_def by (metis set_rev set_takeWhileD subsetI)

lemma digit_not_special: "is_digit c \<Longrightarrow> c \<noteq> CHR ''.'' \<and> c \<noteq> CHR ''{''"
  by (auto simp: is_digit_def)









lemma process_message_classified:
  assumes "BodyJson m = Some (JObj body)" and "has_task_id body"
    and "receive_count m = Inr n" and "get_error_type body m = Inr et"
  shows "process_message m =
     (UpdateItem (task_id_of body) et n
        # (if is_retriable_error et \<and> n \<le> 3 then requeue_message body
           else [Publish (task_id_of body) et body])
        @ [DeleteMessage (ReceiptHandle m)], None)"
  using assms
  by (simp add: process_message_def update_task_status_def delete_message_def
      send_failure_notification_def)

lemma update_absent: "map_of body k = None \<Longrightarrow> AList.update k v body = body @ [(k, v)]"
  by (induction body) (auto split: if_splits)

lemma map_of_update_retries:
  "map_of (AList.update ''retries'' v body) k = (if k = ''retries'' then Some v else map_of body k)"
  by (simp add: update_conv')

lemma dlq_message_body: "BodyJson (dlq_message body count) = Some (JObj body)"
  by (simp add: dlq_message_def)

lemma timeout_body_has_task_id: "has_task_id timeout_body"
  by code_simp

lemma timeout_body_classified:
  "get_error_type timeout_body (dlq_message timeout_body count) = Inr (JStr ''TIMEOUT_ERROR'')"
  by (simp add: get_error_type_def timeout_body_def)

lemma timeout_body_bumped:
  "bump_retries timeout_body = Inr (timeout_body @ [(''retries'', JNum 1)])"
  by code_simp

section \<open>Properties of the DLQ reprocessor\<close>

text \<open>
  C10, as stated, fails: a parsed JSON body that is not an object has no \<^verbatim>\<open>task_id\<close>, but
  \<^verbatim>\<open>body.get\<close> raises on it, so the message is neither deleted nor skipped: it stays in
  the dead-letter queue.
\<close>

theorem no_task_id_non_object_counterexample:
  "BodyJson ((dlq_message [] ''1'')\<lparr>BodyJson := Some (JArr [])\<rparr>) = Some (JArr [])
   \<and> process_message ((dlq_message [] ''1'')\<lparr>BodyJson := Some (JArr [])\<rparr>)
       = ([], Some AttributeError)
   \<and> \<not> deleted ((dlq_message [] ''1'')\<lparr>BodyJson := Some (JArr [])\<rparr>)"
  by code_simp

text \<open>
  C10, amended. A DLQ message whose parsed body is a JSON object without a \<^verbatim>\<open>task_id\<close> (the
  key is absent, or its value is empty) is deleted from the dead-letter queue and
  skipped: the only call made for it is the delete, so no status write, no requeue and
  no notification happens, and no exception is raised.
\<close>

theorem no_task_id_dropped:
  "BodyJson m = Some (JObj body) \<Longrightarrow> \<not> has_task_id body \<Longrightarrow>
   process_message m = ([DeleteMessage (ReceiptHandle m)], None)"
  by (simp add: process_message_def delete_message_def)

theorem no_task_id_dropped_witness:
  "process_message (dlq_message anonymous_body ''1'') = ([DeleteMessage ''rh1''], None)"
proof -
  have "\<not> has_task_id anonymous_body" by code_simp
  from no_task_id_dropped [OF dlq_message_body this, of "''1''"]
  show ?thesis by (simp add: dlq_message_def)
qed

text \<open>
  C3, as stated, fails: a message without a \<^verbatim>\<open>task_id\<close> whose classified error type is
  \<^verbatim>\<open>TIMEOUT_ERROR\<close> and whose receive count is 1 is not requeued.
\<close>

theorem requeue_iff_eligible_counterexample:
  "get_error_type anonymous_body (dlq_message anonymous_body ''1'')
     = Inr (JStr ''TIMEOUT_ERROR'')
   \<and> receive_count (dlq_message anonymous_body ''1'') = Inr 1
   \<and> \<not> requeued (dlq_message anonymous_body ''1'')"
  by code_simp

text \<open>
  C3, amended. Take a message whose body is a JSON object with a non-empty \<^verbatim>\<open>task_id\<close>,
  classified with error type \<open>et\<close> at receive count \<open>n\<close>. It is requeued only if \<open>et\<close> is
  one of \<^verbatim>\<open>TIMEOUT_ERROR\<close>, \<^verbatim>\<open>TEMPORARY_FAILURE\<close>, \<^verbatim>\<open>CONNECTION_ERROR\<close>, \<^verbatim>\<open>RATE_LIMIT_ERROR\<close>
  and \<open>n\<close> is at most 3; when its \<^verbatim>\<open>retries\<close> field is absent or an integer, it is
  requeued if and only if that holds (nothing is promised about a requeue with any
  other \<^verbatim>\<open>retries\<close> value). The failure notification is sent if and only if that does
  not hold. In particular a \<^verbatim>\<open>TIMEOUT_ERROR\<close> message at receive count 3 is requeued with
  \<^verbatim>\<open>retries\<close> set to 1 when it was absent and to one more when it was an integer, and at
  receive count 4 it is notified and not requeued.
\<close>

theorem requeue_iff_eligible:
  assumes "BodyJson m = Some (JObj body)"
    and "map_of body ''task_id'' = Some tid" and "truthy tid"
    and "receive_count m = Inr n" and "get_error_type body m = Inr et"
  shows "(requeued m \<longrightarrow>
            et \<in> {JStr ''TIMEOUT_ERROR'', JStr ''TEMPORARY_FAILURE'',
                  JStr ''CONNECTION_ERROR'', JStr ''RATE_LIMIT_ERROR''} \<and> n \<le> 3)
       \<and> (retries_absent_or_number body \<longrightarrow>
            (requeued m \<longleftrightarrow>
               et \<in> {JStr ''TIMEOUT_ERROR'', JStr ''TEMPORARY_FAILURE'',
                     JStr ''CONNECTION_ERROR'', JStr ''RATE_LIMIT_ERROR''} \<and> n \<le> 3))
       \<and> (notified m \<longleftrightarrow>
            \<not> (et \<in> {JStr ''TIMEOUT_ERROR'', JStr ''TEMPORARY_FAILURE'',
                      JStr ''CONNECTION_ERROR'', JStr ''RATE_LIMIT_ERROR''} \<and> n \<le> 3))
       \<and> (et = JStr ''TIMEOUT_ERROR'' \<and> n = 3 \<and> map_of body ''retries'' = None \<longrightarrow>
            fst (process_message m) =
              [UpdateItem tid (JStr ''TIMEOUT_ERROR'') 3,
               SendMessage (body @ [(''retries'', JNum 1)]),
               DeleteMessage (ReceiptHandle m)])
       \<and> (\<forall>k. et = JStr ''TIMEOUT_ERROR'' \<and> n = 3 \<and> map_of body ''retries'' = Some (JNum k) \<longrightarrow>
            (\<exists>body'. fst (process_message m) =
                       [UpdateItem tid (JStr ''TIMEOUT_ERROR'') 3, SendMessage body',
                        DeleteMessage (ReceiptHandle m)]
                     \<and> map_of body' ''retries'' = Some (JNum (k + 1))))
       \<and> (et = JStr ''TIMEOUT_ERROR'' \<and> n = 4 \<longrightarrow> notified m \<and> \<not> requeued m)"
proof -
  let ?S = "{JStr ''TIMEOUT_ERROR'', JStr ''TEMPORARY_FAILURE'',
             JStr ''CONNECTION_ERROR'', JStr ''RATE_LIMIT_ERROR''}"
  have has: "has_task_id body" and tid: "task_id_of body = tid"
    using assms(2,3) by (simp_all add: has_task_id_def task_id_of_def)
  have ret: "is_retriable_error et \<longleftrightarrow> et \<in> ?S"
    by (simp only: is_retriable_error_def retriable_errors_def List.member_iff list.set)
  note pm = process_message_classified [OF assms(1) has assms(4,5), unfolded tid ret]
  have a: "requeued m \<longrightarrow> et \<in> ?S \<and> n \<le> 3"
    by (auto simp: requeued_def pm split: if_splits)
  have b: "retries_absent_or_number body \<longrightarrow> (requeued m \<longleftrightarrow> et \<in> ?S \<and> n \<le> 3)"
    by (auto simp: requeued_def pm requeue_message_def bump_retries_def
        retries_absent_or_number_def split: if_splits option.splits json.splits)
  have c: "notified m \<longleftrightarrow> \<not> (et \<in> ?S \<and> n \<le> 3)"
    by (auto simp: notified_def pm requeue_message_def split: if_splits sum.splits)
  have d: "et = JStr ''TIMEOUT_ERROR'' \<and> n = 3 \<and> map_of body ''retries'' = None \<longrightarrow>
            fst (process_message m) =
              [UpdateItem tid (JStr ''TIMEOUT_ERROR'') 3,
               SendMessage (body @ [(''retries'', JNum 1)]),
               DeleteMessage (ReceiptHandle m)]"
    by (auto simp: pm requeue_message_def bump_retries_def update_absent)
  have e: "\<forall>k. et = JStr ''TIMEOUT_ERROR'' \<and> n = 3 \<and> map_of body ''retries'' = Some (JNum k) \<longrightarrow>
            (\<exists>body'. fst (process_message m) =
                       [UpdateItem tid (JStr ''TIMEOUT_ERROR'') 3, SendMessage body',
                        DeleteMessage (ReceiptHandle m)]
                     \<and> map_of body' ''retries'' = Some (JNum (k + 1)))"
    by (auto simp: pm requeue_message_def bump_retries_def map_of_update_retries)
  have f: "et = JStr ''TIMEOUT_ERROR'' \<and> n = 4 \<longrightarrow> notified m \<and> \<not> requeued m"
    by (auto simp: notified_def requeued_def pm)
  from a b c d e f show ?thesis by blast
qed

theorem requeue_iff_eligible_witness:
  "requeued (dlq_message timeout_body ''3'')
   \<and> fst (process_message (dlq_message timeout_body ''3'')) =
       [UpdateItem (JStr ''t1'') (JStr ''TIMEOUT_ERROR'') 3,
        SendMessage (timeout_body @ [(''retries'', JNum 1)]), DeleteMessage ''rh1'']
   \<and> notified (dlq_message timeout_body ''4'')
   \<and> \<not> requeued (dlq_message timeout_body ''4'')"
proof -
  have t: "map_of timeout_body ''task_id'' = Some (JStr ''t1'')" by code_simp
  have tr: "truthy (JStr ''t1'')" by simp
  have c3: "receive_count (dlq_message timeout_body ''3'') = Inr 3" by code_simp
  have c4: "receive_count (dlq_message timeout_body ''4'') = Inr 4" by code_simp
  have absent: "map_of timeout_body ''retries'' = None" by code_simp
  have num: "retries_absent_or_number timeout_body"
    by (simp add: retries_absent_or_number_def absent)
  have rh: "ReceiptHandle (dlq_message timeout_body ''3'') = ''rh1''"
    by (simp add: dlq_message_def)
  note at3 = requeue_iff_eligible [OF dlq_message_body t tr c3 timeout_body_classified]
  note at4 = requeue_iff_eligible [OF dlq_message_body t tr c4 timeout_body_classified]
  have "requeued (dlq_message timeout_body ''3'')"
    using at3 num by simp
  moreover have "fst (process_message (dlq_message timeout_body ''3'')) =
       [UpdateItem (JStr ''t1'') (JStr ''TIMEOUT_ERROR'') 3,
        SendMessage (timeout_body @ [(''retries'', JNum 1)]), DeleteMessage ''rh1'']"
    using at3 absent rh by simp
  moreover have "notified (dlq_message timeout_body ''4'')
       \<and> \<not> requeued (dlq_message timeout_body ''4'')"
    using at4 by simp
  ultimately show ?thesis by blast
qed

text \<open>
  C4, as stated, fails: for a retry-eligible message that is requeued, the status store
  is written too.
\<close>

theorem requeue_leaves_status_counterexample:
  "retry_eligible (dlq_message timeout_body ''1'')
   \<and> requeued (dlq_message timeout_body ''1'')
   \<and> status_written (dlq_message timeout_body ''1'')"
  by code_simp

text \<open>
  C4, amended. For a retry-eligible message with a \<^verbatim>\<open>task_id\<close> whose \<^verbatim>\<open>retries\<close> field is
  absent or a number, the handler makes exactly three calls: it writes \<^verbatim>\<open>FAILED\<close> with the
  classified error type and the receive count to the status store (as it does for
  every classified message), republishes the payload to the main queue, and deletes
  the message; no notification is sent. The republished payload differs from the
  original in its \<^verbatim>\<open>retries\<close> field only: 1 when it was absent, one more when it was a
  number.
\<close>

theorem requeue_path_effects:
  assumes "BodyJson m = Some (JObj body)" and "has_task_id body"
    and "receive_count m = Inr n" and "get_error_type body m = Inr et"
    and "is_retriable_error et" and "n \<le> 3"
    and "bump_retries body = Inr body'"
  shows "process_message m =
           ([UpdateItem (task_id_of body) et n, SendMessage body',
             DeleteMessage (ReceiptHandle m)], None)
       \<and> (map_of body ''retries'' = None \<longrightarrow> map_of body' ''retries'' = Some (JNum 1))
       \<and> (\<forall>k. map_of body ''retries'' = Some (JNum k)
              \<longrightarrow> map_of body' ''retries'' = Some (JNum (k + 1)))
       \<and> (\<forall>key. key \<noteq> ''retries'' \<longrightarrow> map_of body' key = map_of body key)"
proof -
  have "process_message m =
      ([UpdateItem (task_id_of body) et n, SendMessage body',
        DeleteMessage (ReceiptHandle m)], None)"
    using assms by (simp add: process_message_classified requeue_message_def)
  moreover have "map_of body ''retries'' = None \<longrightarrow> map_of body' ''retries'' = Some (JNum 1)"
    using assms(7) by (auto simp: bump_retries_def map_of_update_retries)
  moreover have "\<forall>k. map_of body ''retries'' = Some (JNum k)
              \<longrightarrow> map_of body' ''retries'' = Some (JNum (k + 1))"
    using assms(7) by (auto simp: bump_retries_def map_of_update_retries)
  moreover have "\<forall>key. key \<noteq> ''retries'' \<longrightarrow> map_of body' key = map_of body key"
    using assms(7)
    by (auto simp: bump_retries_def map_of_update_retries split: option.splits json.splits)
  ultimately show ?thesis by blast
qed

theorem requeue_path_effects_witness:
  "process_message (dlq_message timeout_body ''2'') =
     ([UpdateItem (JStr ''t1'') (JStr ''TIMEOUT_ERROR'') 2,
       SendMessage (timeout_body @ [(''retries'', JNum 1)]), DeleteMessage ''rh1''], None)
   \<and> map_of (timeout_body @ [(''retries'', JNum 1)]) ''retries'' = Some (JNum 1)"
proof -
  have c: "receive_count (dlq_message timeout_body ''2'') = Inr 2" by code_simp
  have r: "is_retriable_error (JStr ''TIMEOUT_ERROR'')" by code_simp
  have le: "(2::int) \<le> 3" by simp
  have absent: "map_of timeout_body ''retries'' = None" by code_simp
  have tid: "task_id_of timeout_body = JStr ''t1''" by code_simp
  have rh: "ReceiptHandle (dlq_message timeout_body ''2'') = ''rh1''"
    by (simp add: dlq_message_def)
  from requeue_path_effects [OF dlq_message_body timeout_body_has_task_id c
      timeout_body_classified r le timeout_body_bumped]
  show ?thesis using absent tid rh by simp
qed

text \<open>
  C7, as stated, fails: a message without a \<^verbatim>\<open>task_id\<close> is deleted from the dead-letter
  queue although no status write, requeue or notification was made for it.
\<close>

theorem delete_preceded_counterexample:
  "deleted (dlq_message anonymous_body ''1'')
   \<and> \<not> delete_preceded False (fst (process_message (dlq_message anonymous_body ''1'')))"
  by code_simp

text \<open>
  C7, amended. For every DLQ message the delete, if it is made, is the last call made
  for that message. For a message that carries a non-empty \<^verbatim>\<open>task_id\<close> and is deleted,
  the calls are, in this order: the status write for it, then its requeue or
  notification call if one is made, then the delete; exactly one requeue or
  notification call is made when the \<^verbatim>\<open>retries\<close> field is absent or an integer (nothing
  is promised about a requeue with any other \<^verbatim>\<open>retries\<close> value). If processing the
  message raises an exception, no call at all is made for it, so it is not deleted; if
  it raises none, the message is deleted. The calls made for a batch are the calls made
  for each of its messages, one message after the other, whatever happens to the
  others.
\<close>

theorem delete_after_side_effects:
  "delete_is_last (fst (process_message m))
   \<and> (\<forall>body. BodyJson m = Some (JObj body) \<and> has_task_id body \<and> deleted m \<longrightarrow>
        (\<exists>et n mid.
           fst (process_message m) =
             UpdateItem (task_id_of body) et n # mid @ [DeleteMessage (ReceiptHandle m)]
           \<and> list_all (\<lambda>e. is_send e \<or> is_publish e) mid
           \<and> length mid \<le> 1
           \<and> (retries_absent_or_number body \<longrightarrow> length mid = 1)))
   \<and> (snd (process_message m) \<noteq> None \<longrightarrow> fst (process_message m) = [] \<and> \<not> deleted m)
   \<and> (snd (process_message m) = None \<longrightarrow> deleted m)
   \<and> fst (lambda_handler (before @ m # after))
       = fst (lambda_handler before) @ fst (process_message m) @ fst (lambda_handler after)"
proof -
  have a: "delete_is_last (fst (process_message m))"
    by (auto simp: process_message_def update_task_status_def requeue_message_def
        delete_message_def send_failure_notification_def
        split: sum.splits option.splits json.splits)
  have b: "\<forall>body. BodyJson m = Some (JObj body) \<and> has_task_id body \<and> deleted m \<longrightarrow>
        (\<exists>et n mid.
           fst (process_message m) =
             UpdateItem (task_id_of body) et n # mid @ [DeleteMessage (ReceiptHandle m)]
           \<and> list_all (\<lambda>e. is_send e \<or> is_publish e) mid
           \<and> length mid \<le> 1
           \<and> (retries_absent_or_number body \<longrightarrow> length mid = 1))"
  proof (intro allI impI)
    fix body
    assume h: "BodyJson m = Some (JObj body) \<and> has_task_id body \<and> deleted m"
    then obtain n et where n: "receive_count m = Inr n" and et: "get_error_type body m = Inr et"
      by (auto simp: deleted_def process_message_def split: sum.splits)
    let ?mid = "if is_retriable_error et \<and> n \<le> 3 then requeue_message body
                else [Publish (task_id_of body) et body]"
    have "fst (process_message m) =
        UpdateItem (task_id_of body) et n # ?mid @ [DeleteMessage (ReceiptHandle m)]"
      using h n et by (simp add: process_message_classified)
    moreover have "list_all (\<lambda>e. is_send e \<or> is_publish e) ?mid"
      by (auto simp: requeue_message_def split: sum.splits)
    moreover have "length ?mid \<le> 1"
      by (auto simp: requeue_message_def split: sum.splits)
    moreover have "retries_absent_or_number body \<longrightarrow> length ?mid = 1"
      by (auto simp: requeue_message_def bump_retries_def retries_absent_or_number_def
          split: option.splits json.splits)
    ultimately show "\<exists>et n mid.
           fst (process_message m) =
             UpdateItem (task_id_of body) et n # mid @ [DeleteMessage (ReceiptHandle m)]
           \<and> list_all (\<lambda>e. is_send e \<or> is_publish e) mid
           \<and> length mid \<le> 1
           \<and> (retries_absent_or_number body \<longrightarrow> length mid = 1)"
      by blast
  qed
  have c: "snd (process_message m) \<noteq> None \<longrightarrow> fst (process_message m) = [] \<and> \<not> deleted m"
    by (auto simp: deleted_def process_message_def update_task_status_def requeue_message_def
        delete_message_def send_failure_notification_def
        split: sum.splits option.splits json.splits if_splits)
  have d: "snd (process_message m) = None \<longrightarrow> deleted m"
    by (auto simp: deleted_def process_message_def update_task_status_def requeue_message_def
        delete_message_def send_failure_notification_def
        split: sum.splits option.splits json.splits if_splits)
  have "process_batch (before @ m # after)
       = process_batch before @ fst (process_message m) @ process_batch after"
    by (induction before) simp_all
  then have e: "fst (lambda_handler (before @ m # after))
       = fst (lambda_handler before) @ fst (process_message m) @ fst (lambda_handler after)"
    by (simp add: lambda_handler_def)
  from a b c d e show ?thesis by blast
qed

theorem delete_after_side_effects_witness:
  "fst (process_message (dlq_message timeout_body ''1'')) =
     [UpdateItem (JStr ''t1'') (JStr ''TIMEOUT_ERROR'') 1,
      SendMessage (timeout_body @ [(''retries'', JNum 1)]), DeleteMessage ''rh1'']
   \<and> deleted (dlq_message timeout_body ''1'')
   \<and> snd (process_message (dlq_message timeout_body ''one'')) = Some ValueError
   \<and> \<not> deleted (dlq_message timeout_body ''one'')
   \<and> fst (lambda_handler [dlq_message timeout_body ''1'', dlq_message timeout_body ''one'',
                           dlq_message timeout_body ''4''])
       = fst (lambda_handler [dlq_message timeout_body ''1''])
         @ fst (lambda_handler [dlq_message timeout_body ''4''])"
proof -
  note good = delete_after_side_effects [of "dlq_message timeout_body ''1''" "[]" "[]"]
  note bad = delete_after_side_effects [of "dlq_message timeout_body ''one''"
      "[dlq_message timeout_body ''1'']" "[dlq_message timeout_body ''4'']"]
  have ok: "snd (process_message (dlq_message timeout_body ''1'')) = None" by code_simp
  have raised: "snd (process_message (dlq_message timeout_body ''one'')) = Some ValueError"
    by code_simp
  have del: "deleted (dlq_message timeout_body ''1'')"
    using good ok by blast
  have num: "retries_absent_or_number timeout_body" by code_simp
  from good del dlq_message_body timeout_body_has_task_id num
  obtain et n mid where shape: "fst (process_message (dlq_message timeout_body ''1'')) =
        UpdateItem (task_id_of timeout_body) et n # mid
          @ [DeleteMessage (ReceiptHandle (dlq_message timeout_body ''1''))]"
    and "length mid = 1"
    by blast
  have full: "fst (process_message (dlq_message timeout_body ''1'')) =
     [UpdateItem (JStr ''t1'') (JStr ''TIMEOUT_ERROR'') 1,
      SendMessage (timeout_body @ [(''retries'', JNum 1)]), DeleteMessage ''rh1'']"
    by code_simp
  have "fst (process_message (dlq_message timeout_body ''one'')) = []
      \<and> \<not> deleted (dlq_message timeout_body ''one'')"
    using bad raised by simp
  moreover have "fst (lambda_handler [dlq_message timeout_body ''1'',
        dlq_message timeout_body ''one'', dlq_message timeout_body ''4''])
      = fst (lambda_handler [dlq_message timeout_body ''1''])
        @ fst (process_message (dlq_message timeout_body ''one''))
        @ fst (lambda_handler [dlq_message timeout_body ''4''])"
    using bad by simp
  ultimately show ?thesis using raised del full shape by simp
qed

section \<open>Properties of the task executor\<close>

text \<open>
  C1. The claim holds of the specification and not of the code. On a \<^verbatim>\<open>compress\<close> task
  whose compression reports failure, \<^verbatim>\<open>process_task\<close> raises \<^verbatim>\<open>Exception("Compression
  failed")\<close> to its caller after the download, the detection and the compression: no
  status is written and nothing is returned.
\<close>

theorem compress_failure_escapes:
  "process_task (host_with [(''AWS_DESTINATION_BUCKET'', ''out'')])
     (ops_with_compress False) (task_with ''compress'' ''s3://in/notes.txt'') ''aws''
   = ([Download (Some ''s3://in/notes.txt'') ''/tmp/processing/input_t1.txt'',
       Detect ''/tmp/processing/input_t1.txt'',
       Compress ''/tmp/processing/input_t1.txt'' ''/tmp/processing/output_t1''],
      Raises ''Compression failed'')"
  by code_simp

text \<open>
  C2. The claim holds of the specification and not of the code. On a task with an
  unrecognized action no transform is attempted, but \<^verbatim>\<open>process_task\<close> writes two
  \<^verbatim>\<open>FAILED\<close> records, first with \<^verbatim>\<open>unknown_action\<close> and then with \<^verbatim>\<open>processing_failed\<close>,
  before it returns false.
\<close>

theorem unknown_action_two_failed_writes:
  "process_task (host_with [(''AWS_DESTINATION_BUCKET'', ''out'')])
     (ops_with_compress True) (task_with ''archive'' ''s3://in/notes.txt'') ''aws''
   = ([Download (Some ''s3://in/notes.txt'') ''/tmp/processing/input_t1.txt'',
       StatusWrite ''t1'' ''FAILED'' (Some ''unknown_action''),
       StatusWrite ''t1'' ''FAILED'' (Some ''processing_failed'')],
      Returns False)"
  by code_simp

text \<open>
  C6. The claim holds of the specification and not of the code. With provider \<^verbatim>\<open>aws\<close> and
  no destination bucket configured, the output path of a \<^verbatim>\<open>convert_h265\<close> task with a
  source path is left absent: the textual substitution hangs on the provider chain and
  is never reached. After download, detection and conversion, \<^verbatim>\<open>upload_file\<close> is called
  with that absent destination and raises \<^verbatim>\<open>AttributeError\<close>, and no status is written.
\<close>

theorem convert_without_bucket_no_output:
  "resolve_output (host_with []) ''aws'' (task_with ''convert_h265'' ''s3://in/clip.mp4'')
     = Returns None
   \<and> process_task (host_with []) (ops_on strict_machine)
        (task_with ''convert_h265'' ''s3://in/clip.mp4'') ''aws''
     = ([Download (Some ''s3://in/clip.mp4'') ''/tmp/processing/input_t1.mp4'',
         Detect ''/tmp/processing/input_t1.mp4'',
         Convert ''/tmp/processing/input_t1.mp4'' ''/tmp/processing/output_t1'',
         Upload ''/tmp/processing/output_t1'' None],
        Raises ''AttributeError'')"
  by code_simp




section \<open>Properties of the format detector\<close>

text \<open>
  C5, as stated, fails: with the reader package installed, a file named \<^verbatim>\<open>scan.bag\<close> that
  does not open as a ROS bag is classified \<^verbatim>\<open>rosbag\<close> all the same.
\<close>

theorem bag_without_open_counterexample:
  "rosbag_read strict_machine ''scan.bag'' = None
   \<and> ftype (detect_format strict_machine ''scan.bag'') = Rosbag"
  by code_simp

text \<open>
  C5, amended. An existing file whose name ends in \<^verbatim>\<open>.bag\<close> is classified \<^verbatim>\<open>rosbag\<close> if and
  only if the ROS bag reader package is installed: the extension alone decides, the
  file is not opened for the classification. When the package is installed and the
  file does not open as a valid container, the result is still \<^verbatim>\<open>rosbag\<close>, with empty
  details.
\<close>

theorem bag_extension_decides_rosbag:
  assumes "path_exists mc file_path" and "endswith file_path ''.bag''"
  shows "(ftype (detect_format mc file_path) = Rosbag \<longleftrightarrow> rosbags_installed mc)
       \<and> (rosbags_installed mc \<and> rosbag_read mc file_path = None \<longrightarrow>
            detect_format mc file_path =
              \<lparr>ftype = Rosbag, extension = lower (snd (splitext file_path)),
               mime_type = ''application/octet-stream'', details = []\<rparr>)"
  using assms
  by (auto simp: detect_format_def is_rosbag_def detect_rosbag_details_def Let_def)

theorem bag_extension_decides_rosbag_witness:
  "detect_format strict_machine ''scan.bag'' =
     \<lparr>ftype = Rosbag, extension = ''.bag'',
      mime_type = ''application/octet-stream'', details = []\<rparr>
   \<and> ftype (detect_format (strict_machine\<lparr>rosbags_installed := False\<rparr>) ''scan.bag'') \<noteq> Rosbag"
proof -
  have e: "path_exists (strict_machine\<lparr>rosbags_installed := b\<rparr>) ''scan.bag''" for b
    by (simp add: strict_machine_def)
  have e': "path_exists strict_machine ''scan.bag''" by (simp add: strict_machine_def)
  have s: "endswith ''scan.bag'' ''.bag''" by code_simp
  have i: "rosbags_installed strict_machine \<and> rosbag_read strict_machine ''scan.bag'' = None"
    by (simp add: strict_machine_def)
  have x: "lower (snd (splitext ''scan.bag'')) = ''.bag''" by code_simp
  have "detect_format strict_machine ''scan.bag'' =
     \<lparr>ftype = Rosbag, extension = ''.bag'',
      mime_type = ''application/octet-stream'', details = []\<rparr>"
    using bag_extension_decides_rosbag [OF e' s] i x by simp
  moreover have "ftype (detect_format (strict_machine\<lparr>rosbags_installed := False\<rparr>) ''scan.bag'')
      \<noteq> Rosbag"
    using bag_extension_decides_rosbag [OF e s, of False] by simp
  ultimately show ?thesis by blast
qed

section \<open>Properties of the rename pattern\<close>

text \<open>
  C9. For an input file named \<^verbatim>\<open>report.csv\<close> (in any directory) and the pattern
  \<^verbatim>\<open>{basename}_{date}\<close>, whatever the metadata and the timestamp format, the computed
  file name is \<^verbatim>\<open>report_\<close>, then the current date as \<^verbatim>\<open>strftime('%Y%m%d')\<close> renders it (a
  string of digits), then \<^verbatim>\<open>.csv\<close>: both placeholders are substituted and the input's
  extension is appended, the pattern giving a name without one.
\<close>

theorem rename_pattern_report:
  assumes "basename input_path = ''report.csv''"
    and "list_all is_digit (strftime ck ''%Y%m%d'')"
  shows "process_pattern ck ''{basename}_{date}'' input_path metadata timestamp_format
         = ''report_'' @ strftime ck ''%Y%m%d'' @ ''.csv''"
proof -
  let ?d = "strftime ck ''%Y%m%d''"
  have nd: "CHR ''.'' \<notin> set ?d" and nb: "CHR ''{'' \<notin> set ?d"
    using assms(2) digit_not_special by (auto simp: list_all_iff)
  have sp: "splitext ''report.csv'' = (''report'', ''.csv'')" by code_simp
  have s1: "replace ''{basename}_{date}'' ''{filename}'' ''report.csv'' = ''{basename}_{date}''"
    by code_simp
  have s2: "replace ''{basename}_{date}'' ''{basename}'' ''report'' = ''report_{date}''"
    by code_simp
  have s3: "replace ''report_{date}'' ''{ext}'' ''.csv'' = ''report_{date}''"
    by code_simp
  have a4: "\<not> py_in ''{timestamp}'' ''report_{date}''" by code_simp
  have s4: "replace ''report_{date}'' ''{timestamp}'' ts = ''report_{date}''" for ts
    using a4 by (simp add: replace_absent)
  have s5: "replace ''report_{date}'' ''{date}'' ?d = ''report_'' @ ?d"
    by (simp add: replace_def startswith_def)
  have nb': "CHR ''{'' \<notin> set (''report_'' @ ?d)" using nb by simp
  have s6: "replace (''report_'' @ ?d) (CHR ''{'' # r) new = ''report_'' @ ?d" for r new
    using nb' by (rule replace_no_first)
  have builtins: "replace_all
       [(''{filename}'', ''report.csv''), (''{basename}'', ''report''), (''{ext}'', ''.csv''),
        (''{timestamp}'', ts), (''{date}'', ?d), (''{time}'', tm), (''{uuid}'', u),
        (''{uuid_short}'', us)] ''{basename}_{date}'' = ''report_'' @ ?d" for ts tm u us
    using s6 by (simp only: replace_all_Cons replace_all_Nil s1 s2 s3 s4 s5)
  have res: "replace_all
       ([(''{filename}'', ''report.csv''), (''{basename}'', ''report''), (''{ext}'', ''.csv''),
        (''{timestamp}'', ts), (''{date}'', ?d), (''{time}'', tm), (''{uuid}'', u),
        (''{uuid_short}'', us)] @ map (\<lambda>(key, v). (''{meta.'' @ key @ ''}'', v)) metadata)
        ''{basename}_{date}'' = ''report_'' @ ?d" for ts tm u us
    by (simp only: replace_all_append builtins replace_all_meta [OF nb'])
  have nodot: "CHR ''.'' \<notin> set (''report_'' @ ?d)" using nd by simp
  have e1: "\<not> endswith (''report_'' @ ?d) ''.csv''"
    using endswith_set [of "''report_'' @ ?d" "''.csv''"] nodot by auto
  have e2: "CHR ''.'' \<notin> set (basename (''report_'' @ ?d))"
    using basename_set [of "''report_'' @ ?d"] nodot by blast
  show ?thesis
    unfolding process_pattern_def Let_def assms(1) sp fst_conv snd_conv res
    using e1 e2 by simp
qed

theorem rename_pattern_report_witness:
  "process_pattern fixed_clock ''{basename}_{date}'' ''/tmp/processing/report.csv''
     [(''camera'', ''front'')] ''%Y%m%d_%H%M%S'' = ''report_20240131.csv''"
proof -
  have b: "basename ''/tmp/processing/report.csv'' = ''report.csv''" by code_simp
  have d: "list_all is_digit (strftime fixed_clock ''%Y%m%d'')" by code_simp
  have v: "strftime fixed_clock ''%Y%m%d'' = ''20240131''" by code_simp
  from rename_pattern_report [OF b d, of "[(''camera'', ''front'')]" "''%Y%m%d_%H%M%S''"]
  show ?thesis by (simp add: v)
qed

end
